theory Spec2Isabelle
  imports Complex_Main "HOL-Library.Word"
begin

section \<open>AuraVis: the scene-description flow, its WAV step and the scan history\<close>

text \<open>
  The development follows two source files: the server flow
  \<^verbatim>\<open>src/ai/flows/describe-scene.ts\<close> (its first variant, the one that catches a
  failed speech synthesis) and the client component \<^verbatim>\<open>AuraVisUI\<close>.
  Asynchronous calls are sequential in both (\<^verbatim>\<open>await\<close>), so each function is
  modelled by a pure function of its inputs and of the answers of the services it calls.
  A thrown exception or a rejected promise is the left injection of a sum.
\<close>

subsection \<open>Bytes, errors, strings\<close>

type_synonym byte = "8 word"

text \<open>A JavaScript exception: \<^verbatim>\<open>new Error(message)\<close>, or whatever a service throws.\<close>

datatype error = Error string

text \<open>
  \<^verbatim>\<open>s.indexOf(c)\<close>: the index of the first occurrence, or \<open>-1\<close>.
  \<^verbatim>\<open>s.substring(i)\<close>: the string from index \<open>i\<close>, a negative \<open>i\<close> counting as \<open>0\<close>.
\<close>

fun indexOf :: "string \<Rightarrow> char \<Rightarrow> int" where
  "indexOf [] c = - 1"
| "indexOf (x # xs) c =
     (if x = c then 0 else (let i = indexOf xs c in if i < 0 then - 1 else i + 1))"

definition substring :: "string \<Rightarrow> int \<Rightarrow> string" where
  "substring s i = drop (nat i) s"

subsection \<open>Base64 (\<^verbatim>\<open>Buffer.toString('base64')\<close>)\<close>

definition base64_alphabet :: string where
  "base64_alphabet = ''ABCDEFGHIJKLMNOPQRSTUVWXYZabcdefghijklmnopqrstuvwxyz0123456789+/''"

definition base64_char :: "nat \<Rightarrow> char" where
  "base64_char n = base64_alphabet ! (n mod 64)"

fun base64 :: "byte list \<Rightarrow> string" where
  "base64 [] = []"
| "base64 [a] =
     (let n = unat a * 16
      in [base64_char (n div 64), base64_char n, CHR ''='', CHR ''=''])"
| "base64 [a, b] =
     (let n = (unat a * 256 + unat b) * 4
      in [base64_char (n div 4096), base64_char (n div 64), base64_char n, CHR ''=''])"
| "base64 (a # b # c # bs) =
     (let n = unat a * 65536 + unat b * 256 + unat c
      in [base64_char (n div 262144), base64_char (n div 4096), base64_char (n div 64),
          base64_char n] @ base64 bs)"

subsection \<open>The WAV step: \<^verbatim>\<open>toWav\<close>\<close>

text \<open>
  \<^verbatim>\<open>toWav\<close> creates a \<^verbatim>\<open>wav.Writer\<close> for the given channels, rate and bit depth
  (\<^verbatim>\<open>sampleWidth * 8\<close>), writes the PCM buffer to it, collects the chunks of its
  \<^verbatim>\<open>data\<close> events and resolves, at \<^verbatim>\<open>end\<close>, with the base64 text of their
  concatenation; an \<^verbatim>\<open>error\<close> event rejects the promise. The writer is the npm
  package \<^verbatim>\<open>wav\<close>, whose code is not part of the repository: \<^verbatim>\<open>toWav\<close> takes it
  as a parameter, a function from channels, sample rate, bit depth and the written bytes
  to the error or the chunks it emits, and nothing below depends on which bytes a
  writer chooses.
\<close>

type_synonym wav_writer = "nat \<Rightarrow> nat \<Rightarrow> nat \<Rightarrow> byte list \<Rightarrow> error + byte list list"

text \<open>\<^verbatim>\<open>Buffer.concat(bufs)\<close> inside \<^verbatim>\<open>toWav\<close>: the encoded file, before base64.\<close>

definition toWav_buffer :: "wav_writer \<Rightarrow> byte list \<Rightarrow> nat \<Rightarrow> nat \<Rightarrow> nat \<Rightarrow> error + byte list" where
  "toWav_buffer Writer pcmData channels rate sampleWidth =
     (case Writer channels rate (sampleWidth * 8) pcmData of
        Inl e \<Rightarrow> Inl e
      | Inr bufs \<Rightarrow> Inr (concat bufs))"

definition toWav :: "wav_writer \<Rightarrow> byte list \<Rightarrow> nat \<Rightarrow> nat \<Rightarrow> nat \<Rightarrow> error + string" where
  "toWav Writer pcmData channels rate sampleWidth =
     (case toWav_buffer Writer pcmData channels rate sampleWidth of
        Inl e \<Rightarrow> Inl e
      | Inr buf \<Rightarrow> Inr (base64 buf))"

subsection \<open>The flow: \<^verbatim>\<open>describeSceneFlow\<close>\<close>

datatype voice = male | female

record DescribeSceneInput =
  photoDataUri :: string
  latitude :: "real option"
  longitude :: "real option"
  voice :: voice

text \<open>
  The input before the schema has parsed it: the \<^verbatim>\<open>voice\<close> key may be absent or hold
  any string. \<^verbatim>\<open>z.enum(['male', 'female']).default('female')\<close> turns an absent key
  into \<^verbatim>\<open>female\<close> and refuses every string but the two.
\<close>

record RawInput =
  raw_photoDataUri :: string
  raw_latitude :: "real option"
  raw_longitude :: "real option"
  raw_voice :: "string option"

definition voiceSchema :: "string option \<Rightarrow> error + voice" where
  "voiceSchema v =
     (case v of
        None \<Rightarrow> Inr female
      | Some s \<Rightarrow>
          if s = ''male'' then Inr male
          else if s = ''female'' then Inr female
          else Inl (Error ''invalid_enum_value''))"

definition DescribeSceneInputSchema :: "RawInput \<Rightarrow> error + DescribeSceneInput" where
  "DescribeSceneInputSchema raw =
     (case voiceSchema (raw_voice raw) of
        Inl e \<Rightarrow> Inl e
      | Inr v \<Rightarrow>
          Inr \<lparr>photoDataUri = raw_photoDataUri raw, latitude = raw_latitude raw,
               longitude = raw_longitude raw, voice = v\<rparr>)"

text \<open>The output of the scene-analysis prompt, and the output of the flow.\<close>

record PromptOutput =
  sceneDescription :: string
  location :: "string option"

record DescribeSceneOutput = PromptOutput +
  ttsAudioDataUri :: string

text \<open>
  The services the flow calls. \<^verbatim>\<open>sceneAnalysisPrompt\<close> throws, or returns an output
  that may be null. \<^verbatim>\<open>generate\<close> (the speech model, given the voice name and the
  prompt) throws, or returns a result whose \<^verbatim>\<open>media\<close> may be absent; when present it
  is the media's \<^verbatim>\<open>url\<close>. \<^verbatim>\<open>fromBase64\<close> is \<^verbatim>\<open>Buffer.from(s, 'base64')\<close>.
\<close>

record services =
  sceneAnalysisPrompt :: "DescribeSceneInput \<Rightarrow> error + PromptOutput option"
  generate :: "string \<Rightarrow> string \<Rightarrow> error + string option"
  fromBase64 :: "string \<Rightarrow> byte list"
  wavWriter :: wav_writer

text \<open>The calls a run makes to the two models, in order.\<close>

datatype call = PromptCall DescribeSceneInput | GenerateCall string string

text \<open>\<^verbatim>\<open>Algenib is female-like, Achernar is male-like\<close>\<close>

definition voiceName :: "voice \<Rightarrow> string" where
  "voiceName v = (if v = male then ''Achernar'' else ''Algenib'')"

text \<open>
  The \<^verbatim>\<open>try\<close> block of the flow: everything thrown inside it (by the speech model or
  by \<^verbatim>\<open>toWav\<close>) is caught and logged, and \<^verbatim>\<open>ttsAudioDataUri\<close> keeps its initial
  value, the empty string.
\<close>

definition synthesize :: "services \<Rightarrow> string \<Rightarrow> string \<Rightarrow> string" where
  "synthesize sv vname text =
     (case generate sv vname text of
        Inl e \<Rightarrow> ''''
      | Inr None \<Rightarrow> ''''
      | Inr (Some url) \<Rightarrow>
          (let audioBuffer = fromBase64 sv (substring url (indexOf url CHR '','' + 1))
           in case toWav (wavWriter sv) audioBuffer 1 24000 2 of
                Inl e \<Rightarrow> ''''
              | Inr s \<Rightarrow> ''data:audio/wav;base64,'' @ s))"

definition describeSceneFlow ::
  "services \<Rightarrow> DescribeSceneInput \<Rightarrow> call list \<times> (error + DescribeSceneOutput)" where
  "describeSceneFlow sv input =
     (case sceneAnalysisPrompt sv input of
        Inl e \<Rightarrow> ([PromptCall input], Inl e)
      | Inr None \<Rightarrow> ([PromptCall input], Inl (Error ''Could not generate scene description.''))
      | Inr (Some output) \<Rightarrow>
          ([PromptCall input, GenerateCall (voiceName (voice input)) (sceneDescription output)],
           Inr \<lparr>sceneDescription = sceneDescription output, location = location output,
                ttsAudioDataUri =
                  synthesize sv (voiceName (voice input)) (sceneDescription output)\<rparr>))"

definition describeScene ::
  "services \<Rightarrow> RawInput \<Rightarrow> call list \<times> (error + DescribeSceneOutput)" where
  "describeScene sv raw =
     (case DescribeSceneInputSchema raw of
        Inl e \<Rightarrow> ([], Inl e)
      | Inr input \<Rightarrow> describeSceneFlow sv input)"

subsection \<open>The client: scan history and \<^verbatim>\<open>handleRescan\<close>\<close>

text \<open>
  A history entry as the database stores it (\<^verbatim>\<open>Omit<HistoryEntry, 'id'>\<close>) and as the
  component holds it, with the key of the database as its \<^verbatim>\<open>id\<close>. The fields
  \<^verbatim>\<open>id\<close> and \<^verbatim>\<open>location\<close> are \<open>entry_id\<close> and \<open>entry_location\<close> here.
\<close>

record StoredEntry =
  description :: string
  imageUrl :: string
  timestamp :: string
  entry_location :: "string option"

record HistoryEntry = StoredEntry +
  entry_id :: string

type_synonym child = "string \<times> StoredEntry"

text \<open>The children of \<^verbatim>\<open>history/<uid>\<close>, for every user identifier.\<close>

type_synonym database = "string \<Rightarrow> child list"

text \<open>A toast: whether its variant is \<^verbatim>\<open>destructive\<close>, its title, its description.\<close>

datatype toast = Toast bool string string

text \<open>The calls the component makes to the server actions and to the database.\<close>

datatype ui_call =
  DescribeSceneCall RawInput
| SetCall string string StoredEntry
| TextToSpeechCall string voice

text \<open>
  The state of the component (\<^verbatim>\<open>useState\<close>), with what it reads and writes around
  it: the user of \<^verbatim>\<open>useAuth\<close> (\<open>None\<close> when nobody is logged in), whether the video
  element exists and has \<^verbatim>\<open>readyState >= 2\<close>, the toasts shown, the database and the
  calls made. The states \<^verbatim>\<open>location\<close> and \<^verbatim>\<open>voice\<close> are \<open>ui_location\<close> and
  \<open>ui_voice\<close>.
\<close>

record app =
  isCameraOn :: bool
  videoReady :: bool
  isLoading :: bool
  isGeneratingAudio :: bool
  history :: "HistoryEntry list"
  audioSrc :: string
  currentDescription :: string
  ui_location :: "(real \<times> real) option"
  ui_voice :: voice
  user :: "string option"
  toasts :: "toast list"
  db :: database
  calls :: "ui_call list"

text \<open>
  What one run of \<^verbatim>\<open>handleRescan\<close> meets: whether the canvas gives a 2d context,
  the captured frame (\<^verbatim>\<open>canvas.toDataURL\<close>), the server actions
  \<^verbatim>\<open>describeScene\<close> and \<^verbatim>\<open>textToSpeech\<close> as the client sees them (a rejection, or
  the result), the key that \<^verbatim>\<open>push\<close> allocates, the clock
  (\<^verbatim>\<open>new Date().toISOString()\<close>), and whether \<^verbatim>\<open>set\<close> rejects.
\<close>

record scan_env =
  canvasContext :: bool
  capturedPhoto :: string
  describeSceneAction :: "RawInput \<Rightarrow> error + PromptOutput"
  newKey :: string
  now :: string
  setRejects :: "error option"
  textToSpeech :: "string \<Rightarrow> voice \<Rightarrow> error + string"

definition placeholder :: string where
  "placeholder =
     ''Your scene description will appear here. Turn on the camera and scan to begin.''"

definition show_toast :: "toast \<Rightarrow> app \<Rightarrow> app" where
  "show_toast t s = s\<lparr>toasts := toasts s @ [t]\<rparr>"

definition generateAudio :: "scan_env \<Rightarrow> string \<Rightarrow> voice \<Rightarrow> app \<Rightarrow> app" where
  "generateAudio env text selectedVoice s =
     (if text = [] \<or> text = placeholder \<or> text = ''Analyzing scene...'' then s
      else
        let s1 = s\<lparr>isGeneratingAudio := True, audioSrc := [],
                   calls := calls s @ [TextToSpeechCall text selectedVoice]\<rparr>;
            s2 = (case textToSpeech env text selectedVoice of
                    Inr uri \<Rightarrow>
                      if uri \<noteq> [] then s1\<lparr>audioSrc := uri\<rparr>
                      else show_toast (Toast True ''Audio Generation Failed''
                             ''Could not generate audio description.'') s1
                  | Inl e \<Rightarrow>
                      show_toast (Toast True ''Audio Generation Failed''
                        ''An error occurred while generating audio.'') s1)
        in s2\<lparr>isGeneratingAudio := False\<rparr>)"

text \<open>The \<^verbatim>\<open>catch\<close> block of \<^verbatim>\<open>handleRescan\<close>.\<close>

definition analysis_failed :: "app \<Rightarrow> app" where
  "analysis_failed s =
     show_toast (Toast True ''Analysis Failed'' ''Could not get a description for the scene.'')
       (s\<lparr>currentDescription :=
            ''Could not get a description for the scene. Please try again.''\<rparr>)"

text \<open>
  The argument of \<^verbatim>\<open>describeScene\<close>: the captured frame and the coordinates of
  \<^verbatim>\<open>location\<close>, with no \<^verbatim>\<open>voice\<close> key.
\<close>

definition scan_input :: "string \<Rightarrow> (real \<times> real) option \<Rightarrow> RawInput" where
  "scan_input photo loc =
     \<lparr>raw_photoDataUri = photo, raw_latitude = map_option fst loc,
      raw_longitude = map_option snd loc, raw_voice = None\<rparr>"

text \<open>
  The entry \<^verbatim>\<open>handleRescan\<close> writes: the description, the captured frame, the time,
  and the location when the result has a non-empty one.
\<close>

definition new_entry :: "scan_env \<Rightarrow> PromptOutput \<Rightarrow> StoredEntry" where
  "new_entry env result =
     \<lparr>description = sceneDescription result,
      imageUrl = capturedPhoto env,
      timestamp = now env,
      entry_location =
        (case location result of
           None \<Rightarrow> None
         | Some l \<Rightarrow> if l \<noteq> [] then Some l else None)\<rparr>"

text \<open>
  The \<^verbatim>\<open>try\<close> block of \<^verbatim>\<open>handleRescan\<close>, for the logged-in user \<open>uid\<close>: the
  description, the history write, the audio. A rejection of \<^verbatim>\<open>describeScene\<close> or of
  \<^verbatim>\<open>set\<close> goes to the \<^verbatim>\<open>catch\<close> block; \<^verbatim>\<open>generateAudio\<close> catches its own.
\<close>

definition scan_try :: "scan_env \<Rightarrow> string \<Rightarrow> app \<Rightarrow> app" where
  "scan_try env uid s =
     (let photo = capturedPhoto env;
          input = scan_input photo (ui_location s);
          s1 = s\<lparr>calls := calls s @ [DescribeSceneCall input]\<rparr>
      in case describeSceneAction env input of
           Inl e \<Rightarrow> analysis_failed s1
         | Inr result \<Rightarrow>
             let s2 = s1\<lparr>currentDescription := sceneDescription result\<rparr>;
                 newEntry = new_entry env result;
                 s3 = s2\<lparr>calls := calls s2 @ [SetCall uid (newKey env) newEntry]\<rparr>
             in case setRejects env of
                  Some e \<Rightarrow> analysis_failed s3
                | None \<Rightarrow>
                    generateAudio env (sceneDescription result) (ui_voice s)
                      (s3\<lparr>db := fun_upd (db s3) uid (db s3 uid @ [(newKey env, newEntry)])\<rparr>))"

definition handleRescan :: "scan_env \<Rightarrow> app \<Rightarrow> app" where
  "handleRescan env s =
     (if \<not> isCameraOn s \<or> \<not> videoReady s then
        show_toast (Toast False ''Camera is not ready''
          ''Please turn on the camera and wait for the feed to start.'') s
      else
        case user s of
          None \<Rightarrow>
            show_toast (Toast True ''Not logged in'' ''You must be logged in to save scans.'') s
        | Some uid \<Rightarrow>
            let s1 = s\<lparr>isLoading := True, currentDescription := ''Analyzing scene...'',
                       audioSrc := []\<rparr>;
                s2 = (if canvasContext env then scan_try env uid s1 else s1)
            in s2\<lparr>isLoading := False\<rparr>)"

subsection \<open>The history subscription\<close>

definition MAX_HISTORY_ITEMS :: nat where
  "MAX_HISTORY_ITEMS = 10"

text \<open>
  \<^verbatim>\<open>query(historyRef, orderByChild('timestamp'), limitToLast(MAX_HISTORY_ITEMS))\<close>:
  the database orders the children (its order is a parameter here) and keeps the last
  ten. \<^verbatim>\<open>snapshot.val()\<close> is null when the snapshot has no child.
\<close>

definition limitToLast :: "nat \<Rightarrow> 'a list \<Rightarrow> 'a list" where
  "limitToLast n xs = drop (length xs - n) xs"

definition historyQuery :: "(child list \<Rightarrow> child list) \<Rightarrow> child list \<Rightarrow> child list" where
  "historyQuery orderByChild children = limitToLast MAX_HISTORY_ITEMS (orderByChild children)"

definition snapshot_val :: "child list \<Rightarrow> child list option" where
  "snapshot_val snapshot = (if snapshot = [] then None else Some snapshot)"

text \<open>
  \<^verbatim>\<open>Array.prototype.sort\<close> with a comparator: stable, and a comparator result of
  \<^verbatim>\<open>NaN\<close> (\<open>None\<close>) counts as \<open>0\<close>. An element goes before the first element
  it does not compare greater than.
\<close>

fun sort_insert :: "('a \<Rightarrow> 'a \<Rightarrow> int option) \<Rightarrow> 'a \<Rightarrow> 'a list \<Rightarrow> 'a list" where
  "sort_insert cmp x [] = [x]"
| "sort_insert cmp x (y # ys) =
     (if (case cmp x y of None \<Rightarrow> True | Some v \<Rightarrow> v \<le> 0) then x # y # ys
      else y # sort_insert cmp x ys)"

definition Array_sort :: "('a \<Rightarrow> 'a \<Rightarrow> int option) \<Rightarrow> 'a list \<Rightarrow> 'a list" where
  "Array_sort cmp xs = foldr (sort_insert cmp) xs []"

text \<open>
  \<^verbatim>\<open>new Date(b.timestamp).getTime() - new Date(a.timestamp).getTime()\<close>, where
  \<open>getTime\<close> parses a timestamp to milliseconds, or to \<^verbatim>\<open>NaN\<close> (\<open>None\<close>).
\<close>

definition compare_recent ::
  "(string \<Rightarrow> int option) \<Rightarrow> HistoryEntry \<Rightarrow> HistoryEntry \<Rightarrow> int option" where
  "compare_recent getTime a b =
     (case (getTime (timestamp b), getTime (timestamp a)) of
        (Some tb, Some ta) \<Rightarrow> Some (tb - ta)
      | _ \<Rightarrow> None)"

definition with_id :: "child \<Rightarrow> HistoryEntry" where
  "with_id c =
     \<lparr>description = description (snd c), imageUrl = imageUrl (snd c),
      timestamp = timestamp (snd c), entry_location = entry_location (snd c),
      entry_id = fst c\<rparr>"

text \<open>The callback of \<^verbatim>\<open>onValue\<close>, and the effect that subscribes it.\<close>

text \<open>Whether \<open>a\<close> is at least as recent as \<open>b\<close>, both timestamps being dates.\<close>

definition recent_first :: "(string \<Rightarrow> int option) \<Rightarrow> HistoryEntry \<Rightarrow> HistoryEntry \<Rightarrow> bool" where
  "recent_first getTime a b =
     (case (getTime (timestamp a), getTime (timestamp b)) of
        (Some ta, Some tb) \<Rightarrow> tb \<le> ta
      | _ \<Rightarrow> False)"

definition onValue_callback :: "(string \<Rightarrow> int option) \<Rightarrow> child list \<Rightarrow> app \<Rightarrow> app" where
  "onValue_callback getTime snapshot s =
     (case snapshot_val snapshot of
        Some data \<Rightarrow>
          let parsedHistory = Array_sort (compare_recent getTime) (map with_id data);
              s1 = s\<lparr>history := parsedHistory\<rparr>
          in if length parsedHistory > 0 \<and> currentDescription s = placeholder
             then s1\<lparr>currentDescription := description (hd parsedHistory)\<rparr>
             else s1
      | None \<Rightarrow> s\<lparr>history := []\<rparr>)"

definition history_effect ::
  "(string \<Rightarrow> int option) \<Rightarrow> (child list \<Rightarrow> child list) \<Rightarrow> app \<Rightarrow> app" where
  "history_effect getTime orderByChild s =
     (case user s of
        None \<Rightarrow> s
      | Some uid \<Rightarrow> onValue_callback getTime (historyQuery orderByChild (db s uid)) s)"

subsection \<open>Example inputs\<close>

text \<open>
  A stand-in for the writer in the examples: it emits one fixed header of 44 bytes and
  then the bytes written to it, whatever the parameters.
\<close>

definition example_header :: "byte list" where
  "example_header =
     [82, 73, 70, 70, 38, 0, 0, 0, 87, 65, 86, 69, 102, 109, 116, 32, 16, 0, 0, 0, 1, 0, 1, 0,
      192, 93, 0, 0, 128, 187, 0, 0, 2, 0, 16, 0, 100, 97, 116, 97, 2, 0, 0, 0]"

definition example_writer :: wav_writer where
  "example_writer channels rate bitDepth pcmData = Inr [example_header, pcmData]"

text \<open>
  A description service that answers "A quiet street at dusk.", a speech service that
  answers a media URL whose payload decodes to two bytes, and the stand-in writer.
\<close>

definition quiet_street :: PromptOutput where
  "quiet_street = \<lparr>sceneDescription = ''A quiet street at dusk.'', location = None\<rparr>"

definition example_services :: services where
  "example_services =
     \<lparr>sceneAnalysisPrompt = (\<lambda>i. Inr (Some quiet_street)),
      generate = (\<lambda>v p. Inr (Some ''data:audio/L16;base64,AQI='')),
      fromBase64 = (\<lambda>s. if s = ''AQI='' then [1, 2] else []),
      wavWriter = example_writer\<rparr>"

definition example_input :: DescribeSceneInput where
  "example_input =
     \<lparr>photoDataUri = ''data:image/jpeg;base64,AA=='', latitude = None, longitude = None,
      voice = female\<rparr>"

text \<open>The same services, with a speech model that throws.\<close>

definition silent_services :: services where
  "silent_services = example_services\<lparr>generate := (\<lambda>v p. Inl (Error ''503''))\<rparr>"

text \<open>A description service that answers no output, and one that answers an empty text.\<close>

definition absent_services :: services where
  "absent_services = example_services\<lparr>sceneAnalysisPrompt := (\<lambda>i. Inr None)\<rparr>"

definition empty_text_services :: services where
  "empty_text_services =
     silent_services\<lparr>sceneAnalysisPrompt :=
       (\<lambda>i. Inr (Some \<lparr>sceneDescription = [], location = None\<rparr>))\<rparr>"

text \<open>
  A description service that answers an empty text and a place, with a speech model
  that throws.
\<close>

definition wordless_services :: services where
  "wordless_services =
     example_services
       \<lparr>sceneAnalysisPrompt :=
          (\<lambda>i. Inr (Some \<lparr>sceneDescription = [], location = Some ''Poblacion, Tuba, Benguet''\<rparr>)),
        generate := (\<lambda>v p. Inl (Error ''429''))\<rparr>"

text \<open>
  A speech model that has media for the voice "Achernar" only, and three requests: one
  that selects "male", one with no selector, one that selects "robot".
\<close>

definition voiced_services :: services where
  "voiced_services =
     example_services
       \<lparr>generate :=
          (\<lambda>v p. if v = ''Achernar'' then Inr (Some ''data:audio/L16;base64,AQI='')
                 else Inr None)\<rparr>"

definition male_request :: RawInput where
  "male_request =
     \<lparr>raw_photoDataUri = ''data:image/jpeg;base64,AA=='', raw_latitude = None,
      raw_longitude = None, raw_voice = Some ''male''\<rparr>"

definition default_request :: RawInput where
  "default_request = male_request\<lparr>raw_voice := None\<rparr>"

definition robot_request :: RawInput where
  "robot_request = male_request\<lparr>raw_voice := Some ''robot''\<rparr>"

text \<open>
  A component with the camera on and user \<open>u1\<close> logged in, the same with nobody
  logged in, and two runs of \<^verbatim>\<open>handleRescan\<close>: one whose history write succeeds and one
  whose history write is rejected.
\<close>

definition example_app :: app where
  "example_app =
     \<lparr>isCameraOn = True, videoReady = True, isLoading = False, isGeneratingAudio = False,
      history = [], audioSrc = [], currentDescription = placeholder, ui_location = None,
      ui_voice = female, user = Some ''u1'', toasts = [], db = (\<lambda>uid. []), calls = []\<rparr>"

definition logged_out_app :: app where
  "logged_out_app = example_app\<lparr>user := None\<rparr>"

definition example_env :: scan_env where
  "example_env =
     \<lparr>canvasContext = True, capturedPhoto = ''data:image/jpeg;base64,AA=='',
      describeSceneAction = (\<lambda>i. Inr quiet_street),
      newKey = ''k3'', now = ''2024-01-03T00:00:00.000Z'', setRejects = None,
      textToSpeech = (\<lambda>t v. Inr ''data:audio/wav;base64,AA=='')\<rparr>"


text \<open>A stored history of two entries, the older first, and a clock that reads them.\<close>

definition example_getTime :: "string \<Rightarrow> int option" where
  "example_getTime t =
     (if t = ''2024-01-01T00:00:00.000Z'' then Some 1704067200000
      else if t = ''2024-01-02T00:00:00.000Z'' then Some 1704153600000
      else None)"

definition example_children :: "child list" where
  "example_children =
     [(''k1'', \<lparr>description = ''A desk.'', imageUrl = ''data:image/jpeg;base64,AA=='',
               timestamp = ''2024-01-01T00:00:00.000Z'', entry_location = None\<rparr>),
      (''k2'', \<lparr>description = ''A door.'', imageUrl = ''data:image/jpeg;base64,AA=='',
               timestamp = ''2024-01-02T00:00:00.000Z'', entry_location = None\<rparr>)]"

definition history_app :: app where
  "history_app = example_app\<lparr>db := (\<lambda>uid. if uid = ''u1'' then example_children else [])\<rparr>"

section \<open>Properties\<close>

subsection \<open>The flow\<close>

text \<open>
  Claim C4, as stated, fails for an empty text: the flow lets every output of the
  description service through, whatever its text. When the service answers an empty
  text and the speech model throws, the scan returns a result whose
  \<^verbatim>\<open>sceneDescription\<close> is empty.
\<close>

theorem empty_text_synthesis_failure_counterexample:
  "sceneAnalysisPrompt wordless_services example_input =
     Inr (Some \<lparr>sceneDescription = [], location = Some ''Poblacion, Tuba, Benguet''\<rparr>) \<and>
   generate wordless_services ''Algenib'' [] = Inl (Error ''429'') \<and>
   snd (describeSceneFlow wordless_services example_input) =
     Inr \<lparr>sceneDescription = [], location = Some ''Poblacion, Tuba, Benguet'',
          ttsAudioDataUri = []\<rparr>"
  by (simp add: describeSceneFlow_def wordless_services_def example_services_def
        example_input_def synthesize_def voiceName_def)

text \<open>
  Claim C4, amended. For every scan in which the description service returns an output
  and the speech call raises or fails (it throws, or its result has no media), the
  scan still returns successfully: its \<^verbatim>\<open>ttsAudioDataUri\<close> is the empty string, and
  its \<^verbatim>\<open>sceneDescription\<close> and \<^verbatim>\<open>location\<close> are those the description service
  returned.
\<close>

theorem synthesis_failure_downgraded:
  assumes "sceneAnalysisPrompt sv input = Inr (Some out)"
    and "generate sv (voiceName (voice input)) (sceneDescription out) = Inl e \<or>
         generate sv (voiceName (voice input)) (sceneDescription out) = Inr None"
  shows "snd (describeSceneFlow sv input) =
           Inr \<lparr>sceneDescription = sceneDescription out, location = location out,
                ttsAudioDataUri = []\<rparr>"
  using assms by (auto simp: describeSceneFlow_def synthesize_def)

theorem synthesis_failure_downgraded_witness:
  "snd (describeSceneFlow silent_services example_input) =
     Inr \<lparr>sceneDescription = ''A quiet street at dusk.'', location = None,
          ttsAudioDataUri = []\<rparr>"
proof -
  have a: "sceneAnalysisPrompt silent_services example_input = Inr (Some quiet_street)"
    by (simp add: silent_services_def example_services_def)
  have b: "generate silent_services (voiceName (voice example_input))
             (sceneDescription quiet_street) = Inl (Error ''503'') \<or>
           generate silent_services (voiceName (voice example_input))
             (sceneDescription quiet_street) = Inr None"
    by (simp add: silent_services_def example_services_def)
  show ?thesis
    using synthesis_failure_downgraded [OF a b] by (simp add: quiet_street_def)
qed

text \<open>
  Claim C5, as stated, fails for an empty text: the flow tests only whether the output
  of the description service is absent. With an output whose text is empty the speech
  model is called (with the empty text) and the scan returns a result.
\<close>

theorem empty_description_counterexample:
  "describeSceneFlow empty_text_services example_input =
     ([PromptCall example_input, GenerateCall ''Algenib'' []],
      Inr \<lparr>sceneDescription = [], location = None, ttsAudioDataUri = []\<rparr>)"
  by (simp add: describeSceneFlow_def empty_text_services_def silent_services_def
        example_services_def example_input_def synthesize_def voiceName_def)

text \<open>
  Claim C5, amended. For every scan in which the description service returns no output,
  the scan fails with the error "Could not generate scene description.", the only call
  made is the one to the description service (no speech-synthesis call), and no result
  is returned.
\<close>

theorem absent_output_fails_before_speech:
  assumes "sceneAnalysisPrompt sv input = Inr None"
  shows "describeSceneFlow sv input =
           ([PromptCall input], Inl (Error ''Could not generate scene description.''))"
  using assms by (simp add: describeSceneFlow_def)

theorem absent_output_fails_before_speech_witness:
  "describeSceneFlow absent_services example_input =
     ([PromptCall example_input], Inl (Error ''Could not generate scene description.''))"
proof -
  have "sceneAnalysisPrompt absent_services example_input = Inr None"
    by (simp add: absent_services_def example_services_def)
  then show ?thesis by (rule absent_output_fails_before_speech)
qed

text \<open>
  Claim C6. For every scan request: when the selector is "male", every run that reaches
  the speech model calls it with the voice "Achernar" and returns the audio synthesised
  with that voice; when the selector is "female" or omitted, it is the different voice
  "Algenib"; the voice depends on the selector alone; and a request with any other
  selector is refused by the schema before any call is made.
\<close>

theorem voice_selector_request:
  "(raw_voice raw = Some ''male'' \<and>
    sceneAnalysisPrompt sv
      \<lparr>photoDataUri = raw_photoDataUri raw, latitude = raw_latitude raw,
       longitude = raw_longitude raw, voice = male\<rparr> = Inr (Some out) \<longrightarrow>
      describeScene sv raw =
        ([PromptCall \<lparr>photoDataUri = raw_photoDataUri raw, latitude = raw_latitude raw,
                      longitude = raw_longitude raw, voice = male\<rparr>,
          GenerateCall ''Achernar'' (sceneDescription out)],
         Inr \<lparr>sceneDescription = sceneDescription out, location = location out,
              ttsAudioDataUri = synthesize sv ''Achernar'' (sceneDescription out)\<rparr>)) \<and>
   ((raw_voice raw = Some ''female'' \<or> raw_voice raw = None) \<and>
    sceneAnalysisPrompt sv
      \<lparr>photoDataUri = raw_photoDataUri raw, latitude = raw_latitude raw,
       longitude = raw_longitude raw, voice = female\<rparr> = Inr (Some out) \<longrightarrow>
      describeScene sv raw =
        ([PromptCall \<lparr>photoDataUri = raw_photoDataUri raw, latitude = raw_latitude raw,
                      longitude = raw_longitude raw, voice = female\<rparr>,
          GenerateCall ''Algenib'' (sceneDescription out)],
         Inr \<lparr>sceneDescription = sceneDescription out, location = location out,
              ttsAudioDataUri = synthesize sv ''Algenib'' (sceneDescription out)\<rparr>)) \<and>
   (\<forall>s. raw_voice raw = Some s \<and> s \<noteq> ''male'' \<and> s \<noteq> ''female'' \<longrightarrow>
      (\<exists>e. describeScene sv raw = ([], Inl e))) \<and>
   voiceName male \<noteq> voiceName female"
  by (auto simp: describeScene_def DescribeSceneInputSchema_def voiceSchema_def
        describeSceneFlow_def voiceName_def)

theorem voice_selector_request_witness:
  "describeScene voiced_services male_request =
     ([PromptCall \<lparr>photoDataUri = ''data:image/jpeg;base64,AA=='', latitude = None,
                   longitude = None, voice = male\<rparr>,
       GenerateCall ''Achernar'' ''A quiet street at dusk.''],
      Inr \<lparr>sceneDescription = ''A quiet street at dusk.'', location = None,
           ttsAudioDataUri =
             ''data:audio/wav;base64,UklGRiYAAABXQVZFZm10IBAAAAABAAEAwF0AAIC7AAACABAAZGF0YQIAAAABAg==''\<rparr>) \<and>
   describeScene voiced_services default_request =
     ([PromptCall \<lparr>photoDataUri = ''data:image/jpeg;base64,AA=='', latitude = None,
                   longitude = None, voice = female\<rparr>,
       GenerateCall ''Algenib'' ''A quiet street at dusk.''],
      Inr \<lparr>sceneDescription = ''A quiet street at dusk.'', location = None,
           ttsAudioDataUri = []\<rparr>) \<and>
   (\<exists>e. describeScene voiced_services robot_request = ([], Inl e))"
proof -
  have p: "sceneAnalysisPrompt voiced_services i = Inr (Some quiet_street)" for i
    by (simp add: voiced_services_def example_services_def)
  have m: "raw_voice male_request = Some ''male''"
    and d: "raw_voice default_request = None"
    and r: "raw_voice robot_request = Some ''robot''"
    by (simp_all add: male_request_def default_request_def robot_request_def)
  have f: "raw_photoDataUri male_request = ''data:image/jpeg;base64,AA==''"
    "raw_latitude male_request = None" "raw_longitude male_request = None"
    "raw_photoDataUri default_request = ''data:image/jpeg;base64,AA==''"
    "raw_latitude default_request = None" "raw_longitude default_request = None"
    by (simp_all add: male_request_def default_request_def)
  have sa: "synthesize voiced_services ''Achernar'' ''A quiet street at dusk.'' =
      ''data:audio/wav;base64,UklGRiYAAABXQVZFZm10IBAAAAABAAEAwF0AAIC7AAACABAAZGF0YQIAAAABAg==''"
    by (simp add: synthesize_def voiced_services_def example_services_def substring_def
          toWav_def toWav_buffer_def example_writer_def example_header_def base64_char_def
          base64_alphabet_def)
  have sb: "synthesize voiced_services ''Algenib'' ''A quiet street at dusk.'' = []"
    by (simp add: synthesize_def voiced_services_def example_services_def)
  have q: "sceneDescription quiet_street = ''A quiet street at dusk.''"
    "location quiet_street = None"
    by (simp_all add: quiet_street_def)
  have 1: "describeScene voiced_services male_request =
     ([PromptCall \<lparr>photoDataUri = ''data:image/jpeg;base64,AA=='', latitude = None,
                   longitude = None, voice = male\<rparr>,
       GenerateCall ''Achernar'' ''A quiet street at dusk.''],
      Inr \<lparr>sceneDescription = ''A quiet street at dusk.'', location = None,
           ttsAudioDataUri =
             ''data:audio/wav;base64,UklGRiYAAABXQVZFZm10IBAAAAABAAEAwF0AAIC7AAACABAAZGF0YQIAAAABAg==''\<rparr>)"
    using voice_selector_request [of male_request voiced_services quiet_street] m p
    by (simp add: f sa q)
  have 2: "describeScene voiced_services default_request =
     ([PromptCall \<lparr>photoDataUri = ''data:image/jpeg;base64,AA=='', latitude = None,
                   longitude = None, voice = female\<rparr>,
       GenerateCall ''Algenib'' ''A quiet street at dusk.''],
      Inr \<lparr>sceneDescription = ''A quiet street at dusk.'', location = None,
           ttsAudioDataUri = []\<rparr>)"
    using voice_selector_request [of default_request voiced_services quiet_street] d p
    by (simp add: f sb q)
  have 3: "\<exists>e. describeScene voiced_services robot_request = ([], Inl e)"
    using voice_selector_request [of robot_request voiced_services quiet_street] r
    by simp
  show ?thesis using 1 2 3 by blast
qed

text \<open>
  Claim C7. For every scan that produces audio (its \<^verbatim>\<open>ttsAudioDataUri\<close> is not
  empty), the speech model returned a media URL, the encoder produced a byte buffer
  from the payload of that URL with the default parameters (1 channel, 24000 Hz, 2
  bytes per sample), and \<^verbatim>\<open>ttsAudioDataUri\<close> is exactly the prefix
  \<^verbatim>\<open>data:audio/wav;base64,\<close> followed by the base64 text of that buffer.
\<close>

theorem ttsAudioDataUri_format:
  assumes "snd (describeSceneFlow sv input) = Inr res" and "ttsAudioDataUri res \<noteq> []"
  shows "\<exists>out url file.
           sceneAnalysisPrompt sv input = Inr (Some out) \<and>
           generate sv (voiceName (voice input)) (sceneDescription out) = Inr (Some url) \<and>
           toWav_buffer (wavWriter sv)
             (fromBase64 sv (substring url (indexOf url CHR '','' + 1))) 1 24000 2 = Inr file \<and>
           ttsAudioDataUri res = ''data:audio/wav;base64,'' @ base64 file"
  using assms
  by (auto simp: describeSceneFlow_def synthesize_def toWav_def Let_def
           split: sum.splits option.splits)

theorem ttsAudioDataUri_format_witness:
  "\<exists>out url file.
     sceneAnalysisPrompt example_services example_input = Inr (Some out) \<and>
     generate example_services (voiceName (voice example_input)) (sceneDescription out) =
       Inr (Some url) \<and>
     toWav_buffer (wavWriter example_services)
       (fromBase64 example_services (substring url (indexOf url CHR '','' + 1))) 1 24000 2 =
       Inr file \<and>
     ''data:audio/wav;base64,UklGRiYAAABXQVZFZm10IBAAAAABAAEAwF0AAIC7AAACABAAZGF0YQIAAAABAg=='' =
       ''data:audio/wav;base64,'' @ base64 file"
proof -
  let ?res = "\<lparr>sceneDescription = ''A quiet street at dusk.'', location = None,
               ttsAudioDataUri = ''data:audio/wav;base64,UklGRiYAAABXQVZFZm10IBAAAAABAAEAwF0AAIC7AAACABAAZGF0YQIAAAABAg==''\<rparr>"
  have a: "snd (describeSceneFlow example_services example_input) = Inr ?res"
    by (simp add: describeSceneFlow_def example_services_def example_input_def quiet_street_def
          synthesize_def voiceName_def substring_def toWav_def toWav_buffer_def
          example_writer_def example_header_def base64_char_def base64_alphabet_def)
  have b: "ttsAudioDataUri ?res \<noteq> []"
    by simp
  show ?thesis
    using ttsAudioDataUri_format [OF a b] by simp
qed

subsection \<open>The client\<close>





text \<open>
  Claim C9. For every invocation of \<^verbatim>\<open>handleRescan\<close> with nobody logged in, no call
  is made to the database (nor to any server action) and the stored history is
  unchanged.
\<close>

theorem handleRescan_not_logged_in:
  assumes "user s = None"
  shows "db (handleRescan env s) = db s \<and> calls (handleRescan env s) = calls s"
  using assms by (simp add: handleRescan_def show_toast_def)

theorem handleRescan_not_logged_in_witness:
  "db (handleRescan example_env logged_out_app) = db logged_out_app \<and>
   calls (handleRescan example_env logged_out_app) = [] \<and>
   toasts (handleRescan example_env logged_out_app) =
     [Toast True ''Not logged in'' ''You must be logged in to save scans.'']"
proof -
  have a: "user logged_out_app = None"
    by (simp add: logged_out_app_def)
  have b: "calls logged_out_app = []"
    by (simp add: logged_out_app_def example_app_def)
  have c: "toasts (handleRescan example_env logged_out_app) =
             [Toast True ''Not logged in'' ''You must be logged in to save scans.'']"
    by (simp add: handleRescan_def show_toast_def logged_out_app_def example_app_def)
  show ?thesis
    using handleRescan_not_logged_in [OF a, of example_env] b c by simp
qed

subsection \<open>The history list\<close>

lemma length_sort_insert: "length (sort_insert cmp x ys) = Suc (length ys)"
  by (induction ys) auto

lemma length_Array_sort: "length (Array_sort cmp xs) = length xs"
  by (induction xs) (auto simp: Array_sort_def length_sort_insert)

lemma set_sort_insert: "set (sort_insert cmp x ys) = insert x (set ys)"
  by (induction ys) auto

lemma set_Array_sort: "set (Array_sort cmp xs) = set xs"
  by (induction xs) (auto simp: Array_sort_def set_sort_insert)

lemma Array_sort_Nil: "Array_sort cmp [] = []"
  by (simp add: Array_sort_def)

lemma sorted_sort_insert:
  assumes "sorted_wrt (recent_first g) ys"
    and "g (timestamp x) \<noteq> None" and "\<forall>y \<in> set ys. g (timestamp y) \<noteq> None"
  shows "sorted_wrt (recent_first g) (sort_insert (compare_recent g) x ys)"
  using assms
proof (induction ys)
  case Nil
  then show ?case by simp
next
  case (Cons y ys)
  then show ?case
    by (auto simp: set_sort_insert recent_first_def compare_recent_def split: option.splits)
qed

lemma sorted_Array_sort:
  "\<forall>x \<in> set xs. g (timestamp x) \<noteq> None \<Longrightarrow>
   sorted_wrt (recent_first g) (Array_sort (compare_recent g) xs)"
proof (induction xs)
  case Nil
  then show ?case by (simp add: Array_sort_def)
next
  case (Cons x xs)
  have "sorted_wrt (recent_first g)
          (sort_insert (compare_recent g) x (Array_sort (compare_recent g) xs))"
    using Cons by (intro sorted_sort_insert) (auto simp: set_Array_sort)
  then show ?case by (simp add: Array_sort_def)
qed

lemma length_limitToLast: "length (limitToLast n xs) \<le> n"
  by (simp add: limitToLast_def)

lemma history_onValue:
  "history (onValue_callback g snap s) = Array_sort (compare_recent g) (map with_id snap)"
  by (cases snap) (auto simp: onValue_callback_def snapshot_val_def Let_def Array_sort_def)

text \<open>
  Claim C10. For every snapshot of the history query received for a logged-in user,
  whose timestamps are dates, the history list the component holds is sorted most
  recent first, has at most \<open>MAX_HISTORY_ITEMS = 10\<close> entries, and is empty when the
  snapshot is empty.
\<close>

theorem history_sorted_and_bounded:
  assumes "user s = Some uid"
    and "\<forall>c \<in> set (historyQuery ord (db s uid)). getTime (timestamp (snd c)) \<noteq> None"
  shows "sorted_wrt (recent_first getTime) (history (history_effect getTime ord s)) \<and>
         length (history (history_effect getTime ord s)) \<le> MAX_HISTORY_ITEMS \<and>
         length (history (history_effect getTime ord s)) \<le> 10 \<and>
         (historyQuery ord (db s uid) = [] \<longrightarrow> history (history_effect getTime ord s) = [])"
proof -
  let ?snap = "historyQuery ord (db s uid)"
  have h: "history (history_effect getTime ord s) =
           Array_sort (compare_recent getTime) (map with_id ?snap)"
    using assms(1) by (simp add: history_effect_def history_onValue)
  have v: "\<forall>x \<in> set (map with_id ?snap). getTime (timestamp x) \<noteq> None"
    using assms(2) by (auto simp: with_id_def)
  have l: "length ?snap \<le> MAX_HISTORY_ITEMS"
    by (simp add: historyQuery_def length_limitToLast)
  show ?thesis
    using sorted_Array_sort [OF v] l
    by (auto simp: h length_Array_sort MAX_HISTORY_ITEMS_def Array_sort_Nil)
qed

theorem history_sorted_and_bounded_witness:
  "map entry_id (history (history_effect example_getTime (\<lambda>cs. cs) history_app)) =
     [''k2'', ''k1''] \<and>
   sorted_wrt (recent_first example_getTime)
     (history (history_effect example_getTime (\<lambda>cs. cs) history_app)) \<and>
   length (history (history_effect example_getTime (\<lambda>cs. cs) history_app)) \<le> 10"
proof -
  have a: "user history_app = Some ''u1''"
    by (simp add: history_app_def example_app_def)
  have q: "historyQuery (\<lambda>cs. cs) (db history_app ''u1'') = example_children"
    by (simp add: historyQuery_def limitToLast_def MAX_HISTORY_ITEMS_def history_app_def
          example_children_def)
  have b: "\<forall>c \<in> set (historyQuery (\<lambda>cs. cs) (db history_app ''u1'')).
             example_getTime (timestamp (snd c)) \<noteq> None"
    unfolding q by (simp add: example_children_def example_getTime_def)
  have c: "map entry_id (history (history_effect example_getTime (\<lambda>cs. cs) history_app)) =
             [''k2'', ''k1'']"
    using a q
    by (simp add: history_effect_def history_onValue Array_sort_def example_children_def
          with_id_def compare_recent_def example_getTime_def)
  show ?thesis
    using history_sorted_and_bounded [OF a b] c by simp
qed

end
